theory Spec2Isabelle
  imports Main
begin

section \<open>Account REST service: the routing layer of service/routes.py\<close>

text \<open>
  The handlers of \<^verbatim>\<open>service/routes.py\<close> are embedded as functions that take the
  store and the request and return the outcome of the handler together with the store
  the request leaves behind. The two handlers that read the body also take the
  framework's \<^verbatim>\<open>request.get_json()\<close> as a function of the request. An outcome is
  either the response the handler returns or the exception it raises (\<^verbatim>\<open>abort\<close>,
  a validation error); the application's error handlers turn an exception into the
  response the client sees.

  The handlers also write to the application log. The log is neither part of the store
  nor of the response, and the embedding leaves it out.
\<close>

subsection \<open>JSON values, requests, responses, exceptions\<close>

text \<open>
  A JSON document, as \<^verbatim>\<open>request.get_json()\<close> hands it to the handler: a
  Python \<^verbatim>\<open>None\<close>, \<^verbatim>\<open>bool\<close>, \<^verbatim>\<open>int\<close>, \<^verbatim>\<open>str\<close>,
  \<^verbatim>\<open>list\<close> or \<^verbatim>\<open>dict\<close>. A dict is the list of its items. No handler
  computes with a number, and numbers with a fraction are left out.
\<close>

datatype json =
    JNull
  | JBool bool
  | JNumber int
  | JString string
  | JArray "json list"
  | JObject "(string \<times> json) list"

text \<open>
  The exceptions a handler can raise: \<^verbatim>\<open>abort(code, description)\<close> raises an
  HTTP exception; \<^verbatim>\<open>deserialize\<close> and \<^verbatim>\<open>create\<close> signal a validation error;
  \<^verbatim>\<open>url_for\<close> cannot build a URL for a record without identity.
\<close>

datatype error =
    HTTPException nat string
  | DataValidationError string
  | BuildError

text \<open>
  The request: the headers (\<^verbatim>\<open>request.headers.get\<close>), the body, and the scheme and
  host from which \<^verbatim>\<open>url_for\<close> builds an external URL. Of the body only the JSON
  document it holds matters, if it holds one: what \<^verbatim>\<open>json.loads\<close> makes of it. The
  path parameter of a route is an argument of the handler.
\<close>

record request =
  headers :: "string \<rightharpoonup> string"
  json_document :: "json option"
  scheme :: string
  host :: string

datatype body = Json json | Text string

text \<open>A response: status code, body, and the headers the handler sets itself.\<close>

record response =
  status_code :: nat
  body :: body
  header_list :: "(string \<times> string) list"

text \<open>The status codes of \<^verbatim>\<open>service.common.status\<close>.\<close>

definition HTTP_200_OK :: nat where "HTTP_200_OK = 200"
definition HTTP_201_CREATED :: nat where "HTTP_201_CREATED = 201"
definition HTTP_204_NO_CONTENT :: nat where "HTTP_204_NO_CONTENT = 204"
definition HTTP_400_BAD_REQUEST :: nat where "HTTP_400_BAD_REQUEST = 400"
definition HTTP_404_NOT_FOUND :: nat where "HTTP_404_NOT_FOUND = 404"
definition HTTP_415_UNSUPPORTED_MEDIA_TYPE :: nat where "HTTP_415_UNSUPPORTED_MEDIA_TYPE = 415"
definition HTTP_500_INTERNAL_SERVER_ERROR :: nat where "HTTP_500_INTERNAL_SERVER_ERROR = 500"

text \<open>\<^verbatim>\<open>jsonify(x)\<close> is a 200 response with the JSON body \<open>x\<close>;
  \<^verbatim>\<open>make_response(resp, status, headers)\<close> sets status and headers on it; a
  handler that returns a pair \<^verbatim>\<open>(rv, status)\<close> has the status set on the response
  made from \<^verbatim>\<open>rv\<close>.\<close>

definition jsonify :: "json \<Rightarrow> response" where
  "jsonify x = \<lparr>status_code = HTTP_200_OK, body = Json x, header_list = []\<rparr>"

definition make_response :: "response \<Rightarrow> nat \<Rightarrow> (string \<times> string) list \<Rightarrow> response" where
  "make_response resp st hs = resp\<lparr>status_code := st, header_list := header_list resp @ hs\<rparr>"

definition with_status :: "response \<Rightarrow> nat \<Rightarrow> response" where
  "with_status resp st = resp\<lparr>status_code := st\<rparr>"

definition text_response :: "string \<Rightarrow> response" where
  "text_response t = \<lparr>status_code = HTTP_200_OK, body = Text t, header_list = []\<rparr>"

subsection \<open>Decimal numerals in URLs and messages\<close>

text \<open>Python's \<^verbatim>\<open>str(n)\<close> of a non-negative integer, as the f-strings and
  \<^verbatim>\<open>url_for\<close> print an identity.\<close>

definition digit_char :: "nat \<Rightarrow> char" where
  "digit_char d = char_of (48 + d)"

function str_nat :: "nat \<Rightarrow> string" where
  "str_nat n = (if n < 10 then [digit_char n] else str_nat (n div 10) @ [digit_char (n mod 10)])"
  by pat_completeness auto
termination
  by (relation "measure (\<lambda>n. n)") auto

declare str_nat.simps [simp del]

text \<open>The \<^verbatim>\<open><int:account_id>\<close> converter of the route rules: it matches a
  non-empty run of decimal digits and reads it as an integer. A string is a list of
  bytes here and the digits are the ASCII ones, which are the only digits in a URL that
  \<^verbatim>\<open>url_for\<close> builds; digits of other scripts, which the converter also accepts,
  are not covered.\<close>

definition is_digit :: "char \<Rightarrow> bool" where
  "is_digit c = ((48::nat) \<le> of_char c \<and> (of_char c :: nat) \<le> 57)"

definition digit_val :: "char \<Rightarrow> nat" where
  "digit_val c = of_char c - 48"

definition int_converter :: "string \<Rightarrow> nat option" where
  "int_converter ds =
     (if ds \<noteq> [] \<and> list_all is_digit ds
      then Some (foldl (\<lambda>acc c. 10 * acc + digit_val c) 0 ds)
      else None)"

text \<open>The path of the rule \<^verbatim>\<open>/accounts/<int:account_id>\<close>, the external URL
  \<^verbatim>\<open>url_for("get_accounts", account_id=..., _external=True)\<close> builds from it, and the
  match of a path against the rule.\<close>

definition account_path :: "nat \<Rightarrow> string" where
  "account_path account_id = ''/accounts/'' @ str_nat account_id"

definition url_for_get_accounts :: "request \<Rightarrow> nat option \<Rightarrow> error + string" where
  "url_for_get_accounts r account_id =
     (case account_id of
        None \<Rightarrow> Inl BuildError
      | Some i \<Rightarrow> Inr (scheme r @ ''://'' @ host r @ account_path i))"

definition match_account_path :: "string \<Rightarrow> nat option" where
  "match_account_path p =
     (if take 10 p = ''/accounts/'' then int_converter (drop 10 p) else None)"

subsection \<open>The framework's \<^verbatim>\<open>request.get_json()\<close>\<close>

text \<open>
  \<^verbatim>\<open>request.get_json()\<close> is a method of the framework, not of the repository, and
  what it does with a body whose declared media type is not JSON has changed between
  versions of the framework. The handlers therefore take it as a parameter
  \<open>get_json\<close>, a function of the request; what is proved of a handler holds for every
  such function.

  To run the handlers on requests, \<open>flask_get_json\<close> is the method as the handlers call
  it (not forced, not silent). It reads the body only if \<^verbatim>\<open>request.is_json\<close> holds:
  the media type of the Content-Type header, without its parameters and in lower case, is
  \<^verbatim>\<open>application/json\<close> or \<^verbatim>\<open>application/*+json\<close>. A body that is not a JSON
  document is then a bad request (400). For any other declared media type the method
  does not look at the body and gives \<open>not_json\<close>: an abort with 415 in the current
  framework (an abort with 400 or the value \<^verbatim>\<open>None\<close> in earlier versions). The
  descriptions of these aborts are the framework's own and are not modelled in detail.
\<close>

definition lower_char :: "char \<Rightarrow> char" where
  "lower_char c =
     (if (65::nat) \<le> of_char c \<and> (of_char c :: nat) \<le> 90 then char_of (of_char c + (32::nat))
      else c)"

definition is_space :: "char \<Rightarrow> bool" where
  "is_space c = (c \<in> set [CHR '' '', CHR 0x09, CHR 0x0A, CHR 0x0B, CHR 0x0C, CHR 0x0D])"

definition strip :: "string \<Rightarrow> string" where
  "strip x = rev (dropWhile is_space (rev (dropWhile is_space x)))"

definition mimetype_of :: "string \<Rightarrow> string" where
  "mimetype_of content_type = map lower_char (strip (takeWhile (\<lambda>c. c \<noteq> CHR '';'') content_type))"

definition mimetype :: "request \<Rightarrow> string" where
  "mimetype r = mimetype_of (case headers r ''Content-Type'' of None \<Rightarrow> [] | Some v \<Rightarrow> v)"

definition is_json :: "request \<Rightarrow> bool" where
  "is_json r =
     (let mt = mimetype r
      in mt = ''application/json''
         \<or> (take 12 mt = ''application/'' \<and> take 5 (rev mt) = rev ''+json''))"

definition flask_get_json :: "error + json \<Rightarrow> request \<Rightarrow> error + json" where
  "flask_get_json not_json r =
     (if is_json r
      then (case json_document r of
              Some data \<Rightarrow> Inr data
            | None \<Rightarrow> Inl (HTTPException HTTP_400_BAD_REQUEST ''Bad Request''))
      else not_json)"

text \<open>The current framework: a body whose declared media type is not JSON is refused
  with 415.\<close>

definition flask_get_json_415 :: "request \<Rightarrow> error + json" where
  "flask_get_json_415 =
     flask_get_json (Inl (HTTPException HTTP_415_UNSUPPORTED_MEDIA_TYPE ''Unsupported Media Type''))"

subsection \<open>The media-type check\<close>

text \<open>
  \<^verbatim>\<open>
  def check_content_type(media_type):
      content_type = request.headers.get("Content-Type")
      if content_type and content_type == media_type:
          return
      abort(status.HTTP_415_UNSUPPORTED_MEDIA_TYPE, f"Content-Type must be {media_type}")
  \<close>
  A missing header is \<^verbatim>\<open>None\<close> and an empty one is the empty string; both are
  false in the condition.
\<close>

definition check_content_type :: "request \<Rightarrow> string \<Rightarrow> error + unit" where
  "check_content_type r media_type =
     (case headers r ''Content-Type'' of
        Some content_type \<Rightarrow>
          if content_type \<noteq> [] \<and> content_type = media_type then Inr ()
          else Inl (HTTPException HTTP_415_UNSUPPORTED_MEDIA_TYPE
                      (''Content-Type must be '' @ media_type))
      | None \<Rightarrow>
          Inl (HTTPException HTTP_415_UNSUPPORTED_MEDIA_TYPE
                 (''Content-Type must be '' @ media_type)))"

subsection \<open>The Account record and its store\<close>

text \<open>
  Modelled from the spec: \<^verbatim>\<open>service/models.py\<close> (the class \<^verbatim>\<open>Account\<close>) is
  not among the sources. The record has the attributes of the spec's data model:
  identity (assigned by the store on creation; absent while the record is not yet
  persisted), name, email, address, phone_number, date_joined. The spec validates
  nothing beyond the presence of the required fields, so an attribute is either unset or
  holds the JSON value it was given.
\<close>

record account =
  ident :: "nat option"
  name :: "json option"
  email :: "json option"
  address :: "json option"
  phone_number :: "json option"
  date_joined :: "json option"

text \<open>Modelled from the spec: \<^verbatim>\<open>Account()\<close>, a record with no attribute set.\<close>

definition Account :: account where
  "Account = \<lparr>ident = None, name = None, email = None, address = None,
     phone_number = None, date_joined = None\<rparr>"

text \<open>Modelled from the spec: \<^verbatim>\<open>Account.serialize\<close>, a mapping from attribute name
  to value, of the shape \<^verbatim>\<open>{id, name, email, address, phone_number, date_joined}\<close>.
  An unset attribute is serialized as null.\<close>

definition attribute_value :: "json option \<Rightarrow> json" where
  "attribute_value v = (case v of None \<Rightarrow> JNull | Some x \<Rightarrow> x)"

definition serialize :: "account \<Rightarrow> json" where
  "serialize a = JObject
     [(''id'', case ident a of None \<Rightarrow> JNull | Some i \<Rightarrow> JNumber (int i)),
      (''name'', attribute_value (name a)),
      (''email'', attribute_value (email a)),
      (''address'', attribute_value (address a)),
      (''phone_number'', attribute_value (phone_number a)),
      (''date_joined'', attribute_value (date_joined a))]"

text \<open>
  Modelled from the spec: \<^verbatim>\<open>Account.deserialize\<close>. It populates the attributes
  from the inbound mapping and signals a validation error if a required key (name,
  email) is absent or the inbound value is malformed (not a mapping). An optional
  attribute (address, phone_number) takes the value under its key and is unset if there
  is none; date_joined takes the value under its key and defaults to the day of the
  request, \<open>today\<close>. The items of the mapping are looked up with \<open>map_of\<close>. The
  identity is assigned by the store only and is not touched.
\<close>

definition deserialize :: "string \<Rightarrow> account \<Rightarrow> json \<Rightarrow> error + account" where
  "deserialize today a data =
     (case data of
        JObject items \<Rightarrow>
          (case map_of items ''name'' of
             None \<Rightarrow> Inl (DataValidationError ''Invalid Account: missing name'')
           | Some n \<Rightarrow>
               (case map_of items ''email'' of
                  None \<Rightarrow> Inl (DataValidationError ''Invalid Account: missing email'')
                | Some e \<Rightarrow>
                    Inr (a\<lparr>name := Some n, email := Some e,
                           address := map_of items ''address'',
                           phone_number := map_of items ''phone_number'',
                           date_joined :=
                             (case map_of items ''date_joined'' of
                                None \<Rightarrow> Some (JString today)
                              | Some d \<Rightarrow> Some d)\<rparr>)))
      | _ \<Rightarrow> Inl (DataValidationError ''Invalid Account: body of request contained bad or no data''))"

text \<open>
  Modelled from the spec: the store behind \<^verbatim>\<open>Account\<close> (the database table is not
  among the sources). It is the sole owner of durable state: the persisted records in
  insertion order, and the sequence from which the next identity is drawn.
\<close>

record store =
  rows :: "account list"
  next_id :: nat

text \<open>Modelled from the spec: the store before any record is persisted (the test
  suite empties the table before each test).\<close>

definition empty_store :: store where
  "empty_store = \<lparr>rows = [], next_id = 1\<rparr>"

text \<open>Modelled from the spec: \<^verbatim>\<open>Account.find(id)\<close> returns the record matching
  the identity, or \<^verbatim>\<open>None\<close> if none exists. The record it returns is a
  request-scoped copy: changing it changes the store only through \<^verbatim>\<open>update\<close>.\<close>

definition find_account :: "store \<Rightarrow> nat \<Rightarrow> account option" where
  "find_account s account_id = List.find (\<lambda>a. ident a = Some account_id) (rows s)"

text \<open>Modelled from the spec: \<^verbatim>\<open>Account.all()\<close> returns every persisted record,
  in insertion order.\<close>

definition all_accounts :: "store \<Rightarrow> account list" where
  "all_accounts s = rows s"

text \<open>Modelled from the spec: \<^verbatim>\<open>Account.create()\<close> persists a new record and
  assigns its identity; it fails, with a client error, if a required field is missing
  (the attribute is unset). The result is the record as the caller sees it afterwards,
  and the new store.\<close>

definition create :: "store \<Rightarrow> account \<Rightarrow> (error + account) \<times> store" where
  "create s a =
     (if name a = None \<or> email a = None
      then (Inl (DataValidationError ''Invalid Account: missing required field''), s)
      else (let a' = a\<lparr>ident := Some (next_id s)\<rparr>
            in (Inr a', s\<lparr>rows := rows s @ [a'], next_id := Suc (next_id s)\<rparr>)))"

text \<open>Modelled from the spec: \<^verbatim>\<open>Account.update()\<close> overwrites the persisted
  record's attributes with the in-memory copy's current values.\<close>

definition update :: "store \<Rightarrow> account \<Rightarrow> store" where
  "update s a = s\<lparr>rows := map (\<lambda>row. if ident row = ident a then a else row) (rows s)\<rparr>"

text \<open>Modelled from the spec: \<^verbatim>\<open>Account.delete()\<close> removes the persisted record
  permanently.\<close>

definition delete :: "store \<Rightarrow> account \<Rightarrow> store" where
  "delete s a = s\<lparr>rows := filter (\<lambda>row. ident row \<noteq> ident a) (rows s)\<rparr>"

text \<open>
  Modelled from the spec: the application's error handlers
  (\<^verbatim>\<open>service/common/error_handlers.py\<close> is not among the sources). Every failure is
  surfaced as its HTTP status code with a message body: an aborted request with the
  code and description of the abort, a validation error as 400. An exception no handler
  knows is the framework's 500.
\<close>

definition error_response :: "error \<Rightarrow> response" where
  "error_response e =
     (case e of
        HTTPException code description \<Rightarrow>
          \<lparr>status_code = code, body = Text description, header_list = []\<rparr>
      | DataValidationError message \<Rightarrow>
          \<lparr>status_code = HTTP_400_BAD_REQUEST, body = Text message, header_list = []\<rparr>
      | BuildError \<Rightarrow>
          \<lparr>status_code = HTTP_500_INTERNAL_SERVER_ERROR, body = Text ''Internal Server Error'',
           header_list = []\<rparr>)"

text \<open>The response the client receives for the outcome of a handler.\<close>

definition respond :: "error + response \<Rightarrow> response" where
  "respond outcome = (case outcome of Inl e \<Rightarrow> error_response e | Inr resp \<Rightarrow> resp)"

subsection \<open>The handlers\<close>

text \<open>
  \<^verbatim>\<open>
  @app.route("/accounts", methods=["POST"])
  def create_accounts():
      check_content_type("application/json")
      account = Account()
      account.deserialize(request.get_json())
      account.create()
      message = account.serialize()
      location_url = url_for("get_accounts", account_id=account.id, _external=True)
      return make_response(jsonify(message), status.HTTP_201_CREATED, {"Location": location_url})
  \<close>
\<close>

definition create_accounts ::
  "(request \<Rightarrow> error + json) \<Rightarrow> string \<Rightarrow> store \<Rightarrow> request \<Rightarrow> (error + response) \<times> store" where
  "create_accounts get_json today s r =
     (case check_content_type r ''application/json'' of
        Inl e \<Rightarrow> (Inl e, s)
      | Inr _ \<Rightarrow>
          (case get_json r of
             Inl e \<Rightarrow> (Inl e, s)
           | Inr data \<Rightarrow>
               (case deserialize today Account data of
                  Inl e \<Rightarrow> (Inl e, s)
                | Inr account \<Rightarrow>
                    (case create s account of
                       (Inl e, s') \<Rightarrow> (Inl e, s')
                     | (Inr account', s') \<Rightarrow>
                         (let message = serialize account' in
                          case url_for_get_accounts r (ident account') of
                            Inl e \<Rightarrow> (Inl e, s')
                          | Inr location_url \<Rightarrow>
                              (Inr (make_response (jsonify message) HTTP_201_CREATED
                                      [(''Location'', location_url)]), s'))))))"

text \<open>
  \<^verbatim>\<open>
  @app.route("/accounts", methods=["GET"])
  def list_accounts():
      accounts = Account.all()
      results = [account.serialize() for account in accounts]
      return jsonify(results), status.HTTP_200_OK
  \<close>
\<close>

definition list_accounts :: "store \<Rightarrow> (error + response) \<times> store" where
  "list_accounts s =
     (let accounts = all_accounts s;
          results = map serialize accounts
      in (Inr (with_status (jsonify (JArray results)) HTTP_200_OK), s))"

text \<open>
  \<^verbatim>\<open>
  @app.route("/accounts/<int:account_id>", methods=["GET"])
  def get_accounts(account_id):
      account = Account.find(account_id)
      if not account:
          abort(status.HTTP_404_NOT_FOUND, f"Account with id [{account_id}] could not be found.")
      return jsonify(account.serialize()), status.HTTP_200_OK
  \<close>
\<close>

definition not_found_message :: "nat \<Rightarrow> string" where
  "not_found_message account_id =
     ''Account with id ['' @ str_nat account_id @ ''] could not be found.''"

definition get_accounts :: "store \<Rightarrow> nat \<Rightarrow> (error + response) \<times> store" where
  "get_accounts s account_id =
     (case find_account s account_id of
        None \<Rightarrow> (Inl (HTTPException HTTP_404_NOT_FOUND (not_found_message account_id)), s)
      | Some account \<Rightarrow> (Inr (with_status (jsonify (serialize account)) HTTP_200_OK), s))"

text \<open>
  \<^verbatim>\<open>
  @app.route("/accounts/<int:account_id>", methods=["PUT"])
  def update_accounts(account_id):
      account = Account.find(account_id)
      if not account:
          abort(status.HTTP_404_NOT_FOUND, f"Account with id [{account_id}] could not be found.")
      account.deserialize(request.get_json())
      account.update()
      return account.serialize(), status.HTTP_200_OK
  \<close>
  The dict the handler returns becomes a JSON response.
\<close>

definition update_accounts ::
  "(request \<Rightarrow> error + json) \<Rightarrow> string \<Rightarrow> store \<Rightarrow> nat \<Rightarrow> request \<Rightarrow>
     (error + response) \<times> store" where
  "update_accounts get_json today s account_id r =
     (case find_account s account_id of
        None \<Rightarrow> (Inl (HTTPException HTTP_404_NOT_FOUND (not_found_message account_id)), s)
      | Some account \<Rightarrow>
          (case get_json r of
             Inl e \<Rightarrow> (Inl e, s)
           | Inr data \<Rightarrow>
               (case deserialize today account data of
                  Inl e \<Rightarrow> (Inl e, s)
                | Inr account' \<Rightarrow>
                    (let s' = update s account'
                     in (Inr (with_status (jsonify (serialize account')) HTTP_200_OK), s')))))"

text \<open>
  \<^verbatim>\<open>
  @app.route("/accounts/<int:account_id>", methods=["DELETE"])
  def delete_account(account_id):
      account = Account.find(account_id)
      if not account:
          abort(status.HTTP_404_NOT_FOUND, description=f"Account with id [{account_id}] could not be found.")
      account.delete()
      return "", status.HTTP_204_NO_CONTENT
  \<close>
\<close>

definition delete_account :: "store \<Rightarrow> nat \<Rightarrow> (error + response) \<times> store" where
  "delete_account s account_id =
     (case find_account s account_id of
        None \<Rightarrow> (Inl (HTTPException HTTP_404_NOT_FOUND (not_found_message account_id)), s)
      | Some account \<Rightarrow>
          (let s' = delete s account
           in (Inr (with_status (text_response '''') HTTP_204_NO_CONTENT), s')))"

text \<open>
  The invariant of the store: every persisted record has an identity, drawn from the
  sequence before its current position, and no two records share one.
\<close>

definition store_inv :: "store \<Rightarrow> bool" where
  "store_inv s =
     (list_all (\<lambda>a. case ident a of None \<Rightarrow> False | Some i \<Rightarrow> i < next_id s) (rows s)
      \<and> distinct (map ident (rows s)))"

text \<open>
  The request the test client sends for \<^verbatim>\<open>client.post(BASE_URL, json=data)\<close> and
  \<^verbatim>\<open>client.put(url, json=data)\<close>: the body is the JSON document \<open>data\<close> and the
  declared media type is \<^verbatim>\<open>application/json\<close>.
\<close>

definition json_request :: "json \<Rightarrow> request" where
  "json_request data =
     \<lparr>headers = [''Content-Type'' \<mapsto> ''application/json''], json_document = Some data,
      scheme = ''http'', host = ''localhost''\<rparr>"

text \<open>
  The create requests that pass every check: the declared media type is
  \<^verbatim>\<open>application/json\<close>, \<^verbatim>\<open>request.get_json()\<close> gives a JSON object, and the
  object has both required keys.
\<close>

definition valid_create_request :: "(request \<Rightarrow> error + json) \<Rightarrow> request \<Rightarrow> bool" where
  "valid_create_request get_json r =
     (headers r ''Content-Type'' = Some ''application/json'' \<and>
      (case get_json r of
         Inr (JObject items) \<Rightarrow>
           map_of items ''name'' \<noteq> None \<and> map_of items ''email'' \<noteq> None
       | _ \<Rightarrow> False))"

text \<open>
  A store with one persisted account, as the update and delete tests set it up: the
  account has the name and email of the update test and the first identity of the
  sequence.
\<close>

definition test_account :: account where
  "test_account =
     \<lparr>ident = Some 1, name = Some (JString ''Old Name''),
      email = Some (JString ''old@example.com''),
      address = None, phone_number = None, date_joined = Some (JString ''2024-05-01'')\<rparr>"

definition test_store :: store where
  "test_store = \<lparr>rows = [test_account], next_id = 2\<rparr>"

section \<open>Properties\<close>

lemmas status_defs =
  HTTP_200_OK_def HTTP_201_CREATED_def HTTP_204_NO_CONTENT_def HTTP_400_BAD_REQUEST_def
  HTTP_404_NOT_FOUND_def HTTP_415_UNSUPPORTED_MEDIA_TYPE_def HTTP_500_INTERNAL_SERVER_ERROR_def


subsection \<open>The framework's reading of the body\<close>

lemma mimetype_of_examples:
  "mimetype_of ''application/json'' = ''application/json''"
  "mimetype_of ''text/html'' = ''text/html''"
  "mimetype_of ''application/json; charset=utf-8'' = ''application/json''"
  by code_simp+

lemma is_json_application_json:
  "headers r ''Content-Type'' = Some ''application/json'' \<Longrightarrow> is_json r"
  by (simp add: is_json_def mimetype_def mimetype_of_examples)


lemma flask_get_json_json_request: "flask_get_json not_json (json_request data) = Inr data"
  by (simp add: flask_get_json_def is_json_application_json json_request_def)

lemma flask_get_json_415_json_request: "flask_get_json_415 (json_request data) = Inr data"
  by (simp add: flask_get_json_415_def flask_get_json_json_request)

subsection \<open>Decimal numerals\<close>

lemma digit_char_props:
  "d < 10 \<Longrightarrow> is_digit (digit_char d) \<and> digit_val (digit_char d) = d"
  by (simp add: is_digit_def digit_val_def digit_char_def)

lemma str_nat_nonempty: "str_nat n \<noteq> []"
  by (subst str_nat.simps) simp

lemma str_nat_digits: "list_all is_digit (str_nat n)"
proof (induction n rule: str_nat.induct)
  case (1 n)
  show ?case
  proof (cases "n < 10")
    case True
    then show ?thesis
      by (subst str_nat.simps) (simp add: digit_char_props)
  next
    case False
    with 1 have "list_all is_digit (str_nat (n div 10))" by simp
    moreover have "is_digit (digit_char (n mod 10))"
      by (simp add: digit_char_props)
    ultimately show ?thesis
      using False by (subst str_nat.simps) simp
  qed
qed

lemma str_nat_value: "foldl (\<lambda>acc c. 10 * acc + digit_val c) 0 (str_nat n) = n"
proof (induction n rule: str_nat.induct)
  case (1 n)
  show ?case
  proof (cases "n < 10")
    case True
    then show ?thesis
      by (subst str_nat.simps) (simp add: digit_char_props)
  next
    case False
    with 1 have "foldl (\<lambda>acc c. 10 * acc + digit_val c) 0 (str_nat (n div 10)) = n div 10"
      by simp
    moreover have "digit_val (digit_char (n mod 10)) = n mod 10"
      by (simp add: digit_char_props)
    ultimately show ?thesis
      using False by (subst str_nat.simps) simp
  qed
qed

lemma int_converter_str_nat: "int_converter (str_nat n) = Some n"
  by (simp add: int_converter_def str_nat_nonempty str_nat_digits str_nat_value)

lemma match_account_path_account_path: "match_account_path (account_path n) = Some n"
  by (simp add: match_account_path_def account_path_def int_converter_str_nat)

lemma str_nat_examples:
  "str_nat 0 = ''0''" "str_nat (Suc 0) = ''1''" "str_nat 2 = ''2''" "str_nat 7 = ''7''"
  by code_simp+

subsection \<open>Lookup in the store\<close>

lemma find_account_None_iff:
  "find_account s i = None \<longleftrightarrow> (\<forall>a\<in>set (rows s). ident a \<noteq> Some i)"
  by (auto simp: find_account_def find_None_iff)

lemma find_account_SomeD:
  "find_account s i = Some a \<Longrightarrow> a \<in> set (rows s) \<and> ident a = Some i"
  by (auto simp: find_account_def find_Some_iff)

lemma find_account_delete:
  "ident a = Some i \<Longrightarrow> find_account (delete s a) i = None"
  by (simp add: find_account_None_iff delete_def)



lemma find_append_new:
  "\<forall>a\<in>set xs. \<not> P a \<Longrightarrow> P y \<Longrightarrow> List.find P (xs @ [y]) = Some y"
  by (induction xs) auto

lemma store_inv_fresh: "store_inv s \<Longrightarrow> find_account s (next_id s) = None"
  by (auto simp: store_inv_def find_account_None_iff list_all_iff split: option.splits)


subsection \<open>The invariant of the store\<close>

text \<open>The invariant holds of the empty store and every handler preserves it: the read and
  list handlers leave the store as it is, the others change it through \<^verbatim>\<open>create\<close>,
  \<^verbatim>\<open>update\<close> and \<^verbatim>\<open>delete\<close> only.\<close>

lemma store_inv_iff:
  "store_inv s \<longleftrightarrow>
     (\<forall>a \<in> set (rows s). \<exists>i. ident a = Some i \<and> i < next_id s)
     \<and> distinct (map ident (rows s))"
  by (auto simp: store_inv_def list_all_iff split: option.splits)

lemma store_inv_empty: "store_inv empty_store"
  by (simp add: store_inv_iff empty_store_def)

lemma store_inv_create:
  assumes "store_inv s"
  shows "store_inv (snd (create s a))"
proof (cases "name a = None \<or> email a = None")
  case True
  with assms show ?thesis by (simp add: create_def)
next
  case False
  have old: "\<forall>row \<in> set (rows s). \<exists>i. ident row = Some i \<and> i < next_id s"
    and dist: "distinct (map ident (rows s))"
    using assms by (simp_all add: store_inv_iff)
  from old have "Some (next_id s) \<notin> ident ` set (rows s)"
    by fastforce
  moreover from old have "\<forall>row \<in> set (rows s). \<exists>i. ident row = Some i \<and> i < Suc (next_id s)"
    by (meson less_Suc_eq)
  moreover have "snd (create s a) =
      s\<lparr>rows := rows s @ [a\<lparr>ident := Some (next_id s)\<rparr>], next_id := Suc (next_id s)\<rparr>"
    using False by (auto simp: create_def Let_def)
  ultimately show ?thesis
    using dist by (simp add: store_inv_iff)
qed

lemma store_inv_create_accounts:
  assumes "store_inv s"
  shows "store_inv (snd (create_accounts get_json today s r))"
proof -
  have "snd (create_accounts get_json today s r) = s
        \<or> (\<exists>a. snd (create_accounts get_json today s r) = snd (create s a))"
    by (auto simp: create_accounts_def split: sum.splits prod.splits) (metis snd_conv)+
  then show ?thesis
    using assms store_inv_create[OF assms] by auto
qed

lemma map_ident_replace:
  "\<forall>row \<in> set xs. ident row = k \<longrightarrow> ident a = k \<Longrightarrow>
   map ident (map (\<lambda>row. if ident row = k then a else row) xs) = map ident xs"
  by (induction xs) auto

lemma store_inv_update:
  assumes "store_inv s"
  shows "store_inv (update s a)"
proof -
  have old: "\<forall>row \<in> set (rows s). \<exists>i. ident row = Some i \<and> i < next_id s"
    and dist: "distinct (map ident (rows s))"
    using assms by (simp_all add: store_inv_iff)
  have "map ident (rows (update s a)) = map ident (rows s)"
    by (simp add: update_def map_ident_replace)
  moreover have "\<forall>row \<in> set (rows (update s a)). \<exists>i. ident row = Some i \<and> i < next_id s"
  proof
    fix row
    assume "row \<in> set (rows (update s a))"
    then obtain r0 where r0: "r0 \<in> set (rows s)"
      and row: "row = (if ident r0 = ident a then a else r0)"
      by (auto simp: update_def)
    from old r0 obtain i where "ident r0 = Some i" "i < next_id s"
      by blast
    then show "\<exists>i. ident row = Some i \<and> i < next_id s"
      using row by (cases "ident r0 = ident a") auto
  qed
  moreover have "next_id (update s a) = next_id s"
    by (simp add: update_def)
  ultimately show ?thesis
    using dist by (simp add: store_inv_iff)
qed

lemma store_inv_update_accounts:
  "store_inv s \<Longrightarrow> store_inv (snd (update_accounts get_json today s i r))"
  by (auto simp: update_accounts_def store_inv_update split: option.splits sum.splits)

lemma store_inv_delete:
  "store_inv s \<Longrightarrow> store_inv (delete s a)"
  by (auto simp: delete_def store_inv_iff distinct_map_filter)

lemma store_inv_delete_account:
  "store_inv s \<Longrightarrow> store_inv (snd (delete_account s i))"
  by (auto simp: delete_account_def store_inv_delete split: option.splits)

lemma get_accounts_store: "snd (get_accounts s i) = s"
  by (simp add: get_accounts_def split: option.splits)

lemma list_accounts_store: "snd (list_accounts s) = s"
  by (simp add: list_accounts_def Let_def)

subsection \<open>Create\<close>

lemma check_content_type_json:
  "headers r ''Content-Type'' = Some ''application/json'' \<Longrightarrow>
   check_content_type r ''application/json'' = Inr ()"
  by (simp add: check_content_type_def)

lemma check_content_type_other:
  "headers r ''Content-Type'' \<noteq> Some ''application/json'' \<Longrightarrow>
   check_content_type r ''application/json'' =
     Inl (HTTPException 415 ''Content-Type must be application/json'')"
  by (auto simp: check_content_type_def status_defs split: option.splits)

lemma deserialize_ok:
  assumes "map_of items ''name'' = Some n" and "map_of items ''email'' = Some e"
  shows "deserialize today a (JObject items) =
           Inr (a\<lparr>name := Some n, email := Some e,
                  address := map_of items ''address'',
                  phone_number := map_of items ''phone_number'',
                  date_joined :=
                    (case map_of items ''date_joined'' of
                       None \<Rightarrow> Some (JString today)
                     | Some d \<Rightarrow> Some d)\<rparr>)"
  using assms by (simp add: deserialize_def)

lemma deserialize_missing:
  assumes "map_of items ''name'' = None \<or> map_of items ''email'' = None"
  shows "\<exists>m. deserialize today a (JObject items) = Inl (DataValidationError m)"
  using assms by (auto simp: deserialize_def split: option.splits)

lemma deserialize_ident:
  "deserialize today a data = Inr a' \<Longrightarrow> ident a' = ident a"
  by (auto simp: deserialize_def split: json.splits option.splits)

text \<open>A record that \<^verbatim>\<open>deserialize\<close> has populated has its required fields, so
  \<^verbatim>\<open>create\<close> persists it.\<close>

lemma deserialize_required:
  "deserialize today a data = Inr a' \<Longrightarrow> name a' \<noteq> None \<and> email a' \<noteq> None"
  by (auto simp: deserialize_def split: json.splits option.splits)

lemma create_after_deserialize:
  assumes "deserialize today a data = Inr a'"
  shows "create s a' =
           (Inr (a'\<lparr>ident := Some (next_id s)\<rparr>),
            s\<lparr>rows := rows s @ [a'\<lparr>ident := Some (next_id s)\<rparr>], next_id := Suc (next_id s)\<rparr>)"
  using deserialize_required[OF assms] by (auto simp: create_def Let_def)

text \<open>What a request that passes every check of the create handler does.\<close>

lemma create_accounts_valid:
  fixes today :: string and s :: store and items :: "(string \<times> json) list"
    and n e :: json
  assumes ct: "headers r ''Content-Type'' = Some ''application/json''"
    and js: "get_json r = Inr (JObject items)"
    and nm: "map_of items ''name'' = Some n"
    and em: "map_of items ''email'' = Some e"
  defines "account \<equiv>
      \<lparr>ident = Some (next_id s), name = Some n, email = Some e,
       address = map_of items ''address'',
       phone_number = map_of items ''phone_number'',
       date_joined = (case map_of items ''date_joined'' of
                        None \<Rightarrow> Some (JString today) | Some d \<Rightarrow> Some d)\<rparr>"
  shows "create_accounts get_json today s r =
           (Inr \<lparr>status_code = 201, body = Json (serialize account),
                 header_list = [(''Location'', scheme r @ ''://'' @ host r @ account_path (next_id s))]\<rparr>,
            s\<lparr>rows := rows s @ [account], next_id := Suc (next_id s)\<rparr>)"
proof -
  have d: "deserialize today Account (JObject items) =
             Inr (account\<lparr>ident := None\<rparr>)"
    using deserialize_ok[OF nm em, of today Account]
    by (simp add: Account_def account_def)
  have c: "create s (account\<lparr>ident := None\<rparr>) =
             (Inr account, s\<lparr>rows := rows s @ [account], next_id := Suc (next_id s)\<rparr>)"
    using nm em by (simp add: create_def account_def Let_def)
  have u: "url_for_get_accounts r (ident account) = Inr (scheme r @ ''://'' @ host r @ account_path (next_id s))"
    by (simp add: url_for_get_accounts_def account_def)
  show ?thesis
    by (simp add: create_accounts_def check_content_type_json[OF ct] js d c u
        make_response_def jsonify_def status_defs)
qed

lemma get_accounts_found:
  "find_account s i = Some a \<Longrightarrow>
   get_accounts s i =
     (Inr \<lparr>status_code = 200, body = Json (serialize a), header_list = []\<rparr>, s)"
  by (simp add: get_accounts_def with_status_def jsonify_def status_defs)

lemma get_accounts_absent:
  "find_account s i = None \<Longrightarrow>
   get_accounts s i = (Inl (HTTPException 404 (not_found_message i)), s)"
  by (simp add: get_accounts_def status_defs)

text \<open>
  Claim C1. A POST /accounts request whose declared Content-Type is
  \<^verbatim>\<open>application/json\<close> and whose JSON body is a mapping that contains the required
  fields name and email is answered with status 201. The body is
  the serialization of the new account, which carries the identity the store assigned:
  the next one of its sequence, which no persisted account had. The Location header is
  the external URL of the rule \<^verbatim>\<open>/accounts/<int:account_id>\<close> for that identity, whose
  path the rule matches back to the identity, and a GET of that identity on the store the
  request leaves behind is answered with status 200 and the same serialization. The store
  is any store that satisfies the invariant \<open>store_inv\<close>, which holds of the empty store
  and which every handler preserves.
\<close>

theorem create_accounts_created:
  assumes inv: "store_inv s"
    and ct: "headers r ''Content-Type'' = Some ''application/json''"
    and js: "get_json r = Inr (JObject items)"
    and nm: "map_of items ''name'' = Some n"
    and em: "map_of items ''email'' = Some e"
  shows "\<exists>account s'.
           create_accounts get_json today s r =
             (Inr \<lparr>status_code = 201, body = Json (serialize account),
                   header_list = [(''Location'', scheme r @ ''://'' @ host r @ account_path (next_id s))]\<rparr>, s')
         \<and> ident account = Some (next_id s)
         \<and> find_account s (next_id s) = None
         \<and> name account = Some n
         \<and> email account = Some e
         \<and> rows s' = rows s @ [account]
         \<and> match_account_path (account_path (next_id s)) = Some (next_id s)
         \<and> get_accounts s' (next_id s) =
             (Inr \<lparr>status_code = 200, body = Json (serialize account), header_list = []\<rparr>, s')"
proof -
  define account where "account =
      \<lparr>ident = Some (next_id s), name = Some n, email = Some e,
       address = map_of items ''address'',
       phone_number = map_of items ''phone_number'',
       date_joined = (case map_of items ''date_joined'' of
                        None \<Rightarrow> Some (JString today) | Some d \<Rightarrow> Some d)\<rparr>"
  define s' where "s' = s\<lparr>rows := rows s @ [account], next_id := Suc (next_id s)\<rparr>"
  have fresh: "find_account s (next_id s) = None"
    using inv by (rule store_inv_fresh)
  have run: "create_accounts get_json today s r =
      (Inr \<lparr>status_code = 201, body = Json (serialize account),
            header_list = [(''Location'', scheme r @ ''://'' @ host r @ account_path (next_id s))]\<rparr>, s')"
    unfolding account_def s'_def by (rule create_accounts_valid[where get_json = get_json, OF ct js nm em])
  have "\<forall>a\<in>set (rows s). \<not> ident a = Some (next_id s)"
    using fresh by (simp add: find_account_None_iff)
  then have "find_account s' (next_id s) = Some account"
    unfolding find_account_def s'_def
    by (simp add: find_append_new account_def)
  then have get: "get_accounts s' (next_id s) =
      (Inr \<lparr>status_code = 200, body = Json (serialize account), header_list = []\<rparr>, s')"
    by (rule get_accounts_found)
  show ?thesis
  proof (intro exI conjI)
    show "create_accounts get_json today s r =
      (Inr \<lparr>status_code = 201, body = Json (serialize account),
            header_list = [(''Location'', scheme r @ ''://'' @ host r @ account_path (next_id s))]\<rparr>, s')"
      by (rule run)
    show "ident account = Some (next_id s)" by (simp add: account_def)
    show "find_account s (next_id s) = None" by (rule fresh)
    show "name account = Some n" by (simp add: account_def)
    show "email account = Some e" by (simp add: account_def)
    show "rows s' = rows s @ [account]" by (simp add: s'_def)
    show "match_account_path (account_path (next_id s)) = Some (next_id s)"
      by (rule match_account_path_account_path)
    show "get_accounts s' (next_id s) =
      (Inr \<lparr>status_code = 200, body = Json (serialize account), header_list = []\<rparr>, s')"
      by (rule get)
  qed
qed

theorem create_accounts_created_witness:
  "store_inv empty_store
   \<and> headers (json_request (JObject [(''name'', JString ''Ann''), (''email'', JString ''ann@example.com'')]))
       ''Content-Type'' = Some ''application/json''
   \<and> (\<exists>account s'.
        create_accounts flask_get_json_415 ''2024-05-01'' empty_store
          (json_request (JObject [(''name'', JString ''Ann''), (''email'', JString ''ann@example.com'')])) =
          (Inr \<lparr>status_code = 201, body = Json (serialize account),
                header_list = [(''Location'', ''http://localhost/accounts/1'')]\<rparr>, s')
        \<and> ident account = Some 1
        \<and> find_account empty_store 1 = None
        \<and> name account = Some (JString ''Ann'')
        \<and> email account = Some (JString ''ann@example.com'')
        \<and> rows s' = [account]
        \<and> match_account_path ''/accounts/1'' = Some 1
        \<and> get_accounts s' 1 =
            (Inr \<lparr>status_code = 200, body = Json (serialize account), header_list = []\<rparr>, s'))"
proof -
  let ?items = "[(''name'', JString ''Ann''), (''email'', JString ''ann@example.com'')]"
  have inv: "store_inv empty_store"
    by (simp add: store_inv_def empty_store_def)
  have ct: "headers (json_request (JObject ?items)) ''Content-Type'' = Some ''application/json''"
    by (simp add: json_request_def)
  have js: "flask_get_json_415 (json_request (JObject ?items)) = Inr (JObject ?items)"
    by (rule flask_get_json_415_json_request)
  have nm: "map_of ?items ''name'' = Some (JString ''Ann'')"
    and em: "map_of ?items ''email'' = Some (JString ''ann@example.com'')"
    by simp_all
  have ev: "next_id empty_store = 1" "rows empty_store = []"
    "scheme (json_request (JObject ?items)) = ''http''"
    "host (json_request (JObject ?items)) = ''localhost''"
    "account_path 1 = ''/accounts/1''"
    by (simp_all add: empty_store_def json_request_def account_path_def str_nat_examples)
  note run = create_accounts_created[where get_json = flask_get_json_415 and today = "''2024-05-01''",
      OF inv ct js nm em]
  show ?thesis
    using inv ct run unfolding ev by simp
qed


text \<open>
  Claim C2. A POST /accounts request whose Content-Type header is present but is not
  exactly the string \<^verbatim>\<open>application/json\<close> is aborted with status 415 and the
  description of the media-type check. The store is the one before the request, and the
  outcome is the same whatever \<^verbatim>\<open>request.get_json()\<close> would have returned or raised:
  the handler fails before the body is parsed and before an account is deserialized or
  created.
\<close>

theorem create_accounts_other_media_type:
  assumes "headers r ''Content-Type'' = Some content_type"
    and "content_type \<noteq> ''application/json''"
  shows "create_accounts get_json today s r =
           (Inl (HTTPException 415 ''Content-Type must be application/json''), s)
         \<and> create_accounts get_json' today s (r\<lparr>json_document := document\<rparr>) =
             create_accounts get_json today s r"
proof -
  have "headers r ''Content-Type'' \<noteq> Some ''application/json''"
    using assms by simp
  then have c: "check_content_type r ''application/json'' =
      Inl (HTTPException 415 ''Content-Type must be application/json'')"
    by (rule check_content_type_other)
  have "headers (r\<lparr>json_document := document\<rparr>) ''Content-Type'' \<noteq> Some ''application/json''"
    using assms by simp
  then have c': "check_content_type (r\<lparr>json_document := document\<rparr>) ''application/json'' =
      Inl (HTTPException 415 ''Content-Type must be application/json'')"
    by (rule check_content_type_other)
  show ?thesis
    by (simp add: create_accounts_def c c')
qed

theorem create_accounts_other_media_type_witness:
  "headers (json_request (JObject [(''name'', JString ''Ann''), (''email'', JString ''a@b.c'')])
            \<lparr>headers := [''Content-Type'' \<mapsto> ''text/html'']\<rparr>) ''Content-Type'' = Some ''text/html''
   \<and> ''text/html'' \<noteq> ''application/json''
   \<and> create_accounts flask_get_json_415 ''2024-05-01'' empty_store
        (json_request (JObject [(''name'', JString ''Ann''), (''email'', JString ''a@b.c'')])
           \<lparr>headers := [''Content-Type'' \<mapsto> ''text/html'']\<rparr>) =
        (Inl (HTTPException 415 ''Content-Type must be application/json''), empty_store)"
proof -
  let ?r = "json_request (JObject [(''name'', JString ''Ann''), (''email'', JString ''a@b.c'')])
              \<lparr>headers := [''Content-Type'' \<mapsto> ''text/html'']\<rparr>"
  have h: "headers ?r ''Content-Type'' = Some ''text/html''"
    by (simp add: json_request_def)
  have n: "''text/html'' \<noteq> ''application/json''"
    by simp
  from create_accounts_other_media_type[where get_json = flask_get_json_415
      and get_json' = flask_get_json_415 and today = "''2024-05-01''" and s = empty_store, OF h n]
  show ?thesis using h n by blast
qed

text \<open>
  Claim C9. A POST /accounts request with no Content-Type header at all is aborted with
  status 415 like one with a mismatching header: the store is the one before the request,
  and the outcome does not depend on what \<^verbatim>\<open>request.get_json()\<close> would have returned
  or raised.
\<close>

theorem create_accounts_no_content_type:
  assumes "headers r ''Content-Type'' = None"
  shows "create_accounts get_json today s r =
           (Inl (HTTPException 415 ''Content-Type must be application/json''), s)
         \<and> create_accounts get_json' today s (r\<lparr>json_document := document\<rparr>) =
             create_accounts get_json today s r"
proof -
  have c: "check_content_type r ''application/json'' =
      Inl (HTTPException 415 ''Content-Type must be application/json'')"
    using assms by (intro check_content_type_other) simp
  have c': "check_content_type (r\<lparr>json_document := document\<rparr>) ''application/json'' =
      Inl (HTTPException 415 ''Content-Type must be application/json'')"
    using assms by (intro check_content_type_other) simp
  show ?thesis
    by (simp add: create_accounts_def c c')
qed

theorem create_accounts_no_content_type_witness:
  "headers (json_request (JObject [(''name'', JString ''Ann''), (''email'', JString ''a@b.c'')])
            \<lparr>headers := Map.empty\<rparr>) ''Content-Type'' = None
   \<and> create_accounts flask_get_json_415 ''2024-05-01'' empty_store
        (json_request (JObject [(''name'', JString ''Ann''), (''email'', JString ''a@b.c'')])
           \<lparr>headers := Map.empty\<rparr>) =
        (Inl (HTTPException 415 ''Content-Type must be application/json''), empty_store)"
proof -
  let ?r = "json_request (JObject [(''name'', JString ''Ann''), (''email'', JString ''a@b.c'')])
              \<lparr>headers := Map.empty\<rparr>"
  have h: "headers ?r ''Content-Type'' = None"
    by simp
  from create_accounts_no_content_type[where get_json = flask_get_json_415
      and get_json' = flask_get_json_415 and today = "''2024-05-01''" and s = empty_store, OF h]
  show ?thesis using h by blast
qed

text \<open>
  Claim C3. A POST /accounts request with Content-Type \<^verbatim>\<open>application/json\<close> whose
  JSON body is a mapping that is missing a required field (it has no name or no email;
  for example a body with only a name) is answered with status 400, and the store is the
  one before the request: no account is persisted.
\<close>

theorem create_accounts_missing_field:
  assumes ct: "headers r ''Content-Type'' = Some ''application/json''"
    and js: "get_json r = Inr (JObject items)"
    and missing: "map_of items ''name'' = None \<or> map_of items ''email'' = None"
  shows "status_code (respond (fst (create_accounts get_json today s r))) = 400
         \<and> snd (create_accounts get_json today s r) = s"
proof -
  obtain m where "deserialize today Account (JObject items) = Inl (DataValidationError m)"
    using deserialize_missing[OF missing] by blast
  then show ?thesis
    by (simp add: create_accounts_def check_content_type_json[OF ct] js respond_def
        error_response_def status_defs)
qed

theorem create_accounts_missing_field_witness:
  "headers (json_request (JObject [(''name'', JString ''not enough data'')])) ''Content-Type'' =
     Some ''application/json''
   \<and> flask_get_json_415 (json_request (JObject [(''name'', JString ''not enough data'')])) =
       Inr (JObject [(''name'', JString ''not enough data'')])
   \<and> (map_of [(''name'', JString ''not enough data'')] ''name'' = None
        \<or> map_of [(''name'', JString ''not enough data'')] ''email'' = None)
   \<and> status_code (respond (fst (create_accounts flask_get_json_415 ''2024-05-01'' empty_store
         (json_request (JObject [(''name'', JString ''not enough data'')]))))) = 400
   \<and> snd (create_accounts flask_get_json_415 ''2024-05-01'' empty_store
         (json_request (JObject [(''name'', JString ''not enough data'')]))) = empty_store"
proof -
  let ?items = "[(''name'', JString ''not enough data'')]"
  have ct: "headers (json_request (JObject ?items)) ''Content-Type'' = Some ''application/json''"
    by (simp add: json_request_def)
  have js: "flask_get_json_415 (json_request (JObject ?items)) = Inr (JObject ?items)"
    by (rule flask_get_json_415_json_request)
  have missing: "map_of ?items ''name'' = None \<or> map_of ?items ''email'' = None"
    by simp
  from create_accounts_missing_field[where get_json = flask_get_json_415
      and today = "''2024-05-01''" and s = empty_store, OF ct js missing]
  show ?thesis using ct js missing by blast
qed




subsection \<open>Update\<close>

lemma update_accounts_absent:
  "find_account s i = None \<Longrightarrow>
   update_accounts get_json today s i r = (Inl (HTTPException 404 (not_found_message i)), s)"
  by (simp add: update_accounts_def status_defs)






subsection \<open>Delete\<close>

lemma delete_account_absent:
  "find_account s i = None \<Longrightarrow>
   delete_account s i = (Inl (HTTPException 404 (not_found_message i)), s)"
  by (simp add: delete_account_def status_defs)

lemma delete_account_found:
  "find_account s i = Some account \<Longrightarrow>
   delete_account s i =
     (Inr \<lparr>status_code = 204, body = Text '''', header_list = []\<rparr>, delete s account)"
  by (simp add: delete_account_def with_status_def text_response_def status_defs)

text \<open>
  Claim C6. DELETE /accounts/{id}: if an account has that identity, the response is 204
  with an empty body, the store the request leaves behind holds the records of the other
  identities and no record of that identity, so that a GET of that identity and a second
  DELETE are both answered with status 404, the latter leaving the store as it is; if no
  account has that identity, the request is aborted with status 404 and the message that
  names the identity, and the store is the one before the request.
\<close>

theorem delete_account_deleted_or_404:
  "(case find_account s account_id of
      None \<Rightarrow>
        delete_account s account_id =
          (Inl (HTTPException 404
                 (''Account with id ['' @ str_nat account_id @ ''] could not be found.'')), s)
        \<and> status_code (respond (fst (delete_account s account_id))) = 404
    | Some account \<Rightarrow>
        (\<exists>s'. delete_account s account_id =
                (Inr \<lparr>status_code = 204, body = Text '''', header_list = []\<rparr>, s')
          \<and> rows s' = filter (\<lambda>row. ident row \<noteq> Some account_id) (rows s)
          \<and> (\<forall>row \<in> set (rows s'). ident row \<noteq> Some account_id)
          \<and> find_account s' account_id = None
          \<and> status_code (respond (fst (get_accounts s' account_id))) = 404
          \<and> status_code (respond (fst (delete_account s' account_id))) = 404
          \<and> snd (delete_account s' account_id) = s'))"
proof (cases "find_account s account_id")
  case None
  then show ?thesis
    by (simp add: delete_account_absent not_found_message_def respond_def error_response_def)
next
  case (Some account)
  have idn: "ident account = Some account_id"
    using find_account_SomeD[OF Some] by simp
  define s' where "s' = delete s account"
  have gone: "find_account s' account_id = None"
    unfolding s'_def by (rule find_account_delete[OF idn])
  have "\<exists>s'. delete_account s account_id =
                (Inr \<lparr>status_code = 204, body = Text '''', header_list = []\<rparr>, s')
          \<and> rows s' = filter (\<lambda>row. ident row \<noteq> Some account_id) (rows s)
          \<and> (\<forall>row \<in> set (rows s'). ident row \<noteq> Some account_id)
          \<and> find_account s' account_id = None
          \<and> status_code (respond (fst (get_accounts s' account_id))) = 404
          \<and> status_code (respond (fst (delete_account s' account_id))) = 404
          \<and> snd (delete_account s' account_id) = s'"
  proof (intro exI conjI)
    show "delete_account s account_id =
        (Inr \<lparr>status_code = 204, body = Text '''', header_list = []\<rparr>, s')"
      unfolding s'_def by (rule delete_account_found[OF Some])
    show "rows s' = filter (\<lambda>row. ident row \<noteq> Some account_id) (rows s)"
      by (simp add: s'_def delete_def idn)
    show "\<forall>row \<in> set (rows s'). ident row \<noteq> Some account_id"
      using gone by (simp add: find_account_None_iff)
    show "find_account s' account_id = None" by (rule gone)
    show "status_code (respond (fst (get_accounts s' account_id))) = 404"
      by (simp add: get_accounts_absent[OF gone] respond_def error_response_def)
    show "status_code (respond (fst (delete_account s' account_id))) = 404"
      by (simp add: delete_account_absent[OF gone] respond_def error_response_def)
    show "snd (delete_account s' account_id) = s'"
      by (simp add: delete_account_absent[OF gone])
  qed
  with Some show ?thesis by simp
qed

theorem delete_account_deleted_or_404_witness:
  "(\<exists>s'. delete_account test_store 1 =
           (Inr \<lparr>status_code = 204, body = Text [], header_list = []\<rparr>, s')
         \<and> rows s' = []
         \<and> status_code (respond (fst (get_accounts s' 1))) = 404)
   \<and> delete_account test_store 0 =
     (Inl (HTTPException 404 ''Account with id [0] could not be found.''), test_store)"
proof -
  have f1: "find_account test_store 1 = Some test_account"
    by (simp add: find_account_def test_store_def test_account_def)
  have f0: "find_account test_store 0 = None"
    by (simp add: find_account_def test_store_def test_account_def)
  have rows1: "filter (\<lambda>row. ident row \<noteq> Some 1) (rows test_store) = []"
    by (simp add: test_store_def test_account_def)
  from delete_account_deleted_or_404[where s = test_store and account_id = 1]
  obtain s' where "delete_account test_store 1 =
                (Inr \<lparr>status_code = 204, body = Text [], header_list = []\<rparr>, s')"
    and "rows s' = []"
    and "status_code (respond (fst (get_accounts s' 1))) = 404"
    unfolding f1 rows1 by auto
  then have part1: "\<exists>s'. delete_account test_store 1 =
           (Inr \<lparr>status_code = 204, body = Text [], header_list = []\<rparr>, s')
         \<and> rows s' = []
         \<and> status_code (respond (fst (get_accounts s' 1))) = 404"
    by (intro exI conjI)
  from delete_account_deleted_or_404[where s = test_store and account_id = 0]
  have part2: "delete_account test_store 0 =
     (Inl (HTTPException 404 ''Account with id [0] could not be found.''), test_store)"
    unfolding f0 by (simp add: str_nat_examples)
  from part1 part2 show ?thesis by (rule conjI)
qed

subsection \<open>List\<close>

lemma list_accounts_eq:
  "list_accounts s =
     (Inr \<lparr>status_code = 200, body = Json (JArray (map serialize (rows s))), header_list = []\<rparr>, s)"
  by (simp add: list_accounts_def all_accounts_def with_status_def jsonify_def status_defs)

lemma create_accounts_appends:
  assumes "valid_create_request get_json r"
  shows "\<exists>account. snd (create_accounts get_json today s r) =
           s\<lparr>rows := rows s @ [account], next_id := Suc (next_id s)\<rparr>
         \<and> ident account = Some (next_id s)
         \<and> status_code (respond (fst (create_accounts get_json today s r))) = 201"
proof -
  from assms obtain items n e where ct: "headers r ''Content-Type'' = Some ''application/json''"
    and js: "get_json r = Inr (JObject items)"
    and nm: "map_of items ''name'' = Some n" and em: "map_of items ''email'' = Some e"
    by (auto simp: valid_create_request_def split: sum.splits json.splits)
  define account where "account =
      \<lparr>ident = Some (next_id s), name = Some n, email = Some e,
       address = map_of items ''address'',
       phone_number = map_of items ''phone_number'',
       date_joined = (case map_of items ''date_joined'' of
                        None \<Rightarrow> Some (JString today) | Some d \<Rightarrow> Some d)\<rparr>"
  have run: "create_accounts get_json today s r =
      (Inr \<lparr>status_code = 201, body = Json (serialize account),
            header_list = [(''Location'', scheme r @ ''://'' @ host r @ account_path (next_id s))]\<rparr>,
       s\<lparr>rows := rows s @ [account], next_id := Suc (next_id s)\<rparr>)"
    unfolding account_def by (rule create_accounts_valid[where get_json = get_json, OF ct js nm em])
  show ?thesis
  proof (intro exI conjI)
    show "snd (create_accounts get_json today s r) =
        s\<lparr>rows := rows s @ [account], next_id := Suc (next_id s)\<rparr>"
      by (simp add: run)
    show "ident account = Some (next_id s)"
      by (simp add: account_def)
    show "status_code (respond (fst (create_accounts get_json today s r))) = 201"
      by (simp add: run respond_def)
  qed
qed

lemma create_accounts_length:
  "valid_create_request get_json r \<Longrightarrow>
   length (rows (snd (create_accounts get_json today s r))) = Suc (length (rows s))"
  using create_accounts_appends[of get_json r today s] by auto

text \<open>
  Claim C7. For every store, GET /accounts is answered with status 200 and leaves the
  store as it is; the body is a JSON sequence with exactly one entry per persisted
  account, the entry at each position being the serialization of the record at that
  position. In particular, after three create requests that pass every check on the
  empty store, the sequence has exactly three entries.
\<close>

theorem list_accounts_all:
  "(\<exists>entries.
      list_accounts s =
        (Inr \<lparr>status_code = 200, body = Json (JArray entries), header_list = []\<rparr>, s)
      \<and> length entries = length (rows s)
      \<and> (\<forall>k < length (rows s). entries ! k = serialize (rows s ! k)))
   \<and> (valid_create_request get_json r1 \<and> valid_create_request get_json r2 \<and> valid_create_request get_json r3 \<longrightarrow>
        (\<exists>entries.
           fst (list_accounts
                  (snd (create_accounts get_json d3
                     (snd (create_accounts get_json d2
                        (snd (create_accounts get_json d1 empty_store r1)) r2)) r3))) =
             Inr \<lparr>status_code = 200, body = Json (JArray entries), header_list = []\<rparr>
           \<and> length entries = 3))"
proof (intro conjI impI)
  have "list_accounts s =
     (Inr \<lparr>status_code = 200, body = Json (JArray (map serialize (rows s))), header_list = []\<rparr>, s)
     \<and> length (map serialize (rows s)) = length (rows s)
     \<and> (\<forall>k < length (rows s). map serialize (rows s) ! k = serialize (rows s ! k))"
    by (simp add: list_accounts_eq)
  then show "\<exists>entries.
      list_accounts s =
        (Inr \<lparr>status_code = 200, body = Json (JArray entries), header_list = []\<rparr>, s)
      \<and> length entries = length (rows s)
      \<and> (\<forall>k < length (rows s). entries ! k = serialize (rows s ! k))"
    by (rule exI)
next
  assume v: "valid_create_request get_json r1 \<and> valid_create_request get_json r2 \<and> valid_create_request get_json r3"
  define s1 where "s1 = snd (create_accounts get_json d1 empty_store r1)"
  define s2 where "s2 = snd (create_accounts get_json d2 s1 r2)"
  define s3 where "s3 = snd (create_accounts get_json d3 s2 r3)"
  have "length (rows s1) = 1"
    unfolding s1_def using v by (simp add: create_accounts_length empty_store_def)
  then have "length (rows s2) = 2"
    unfolding s2_def using v by (simp add: create_accounts_length)
  then have len: "length (rows s3) = 3"
    unfolding s3_def using v by (simp add: create_accounts_length)
  have "fst (list_accounts s3) =
          Inr \<lparr>status_code = 200, body = Json (JArray (map serialize (rows s3))), header_list = []\<rparr>
        \<and> length (map serialize (rows s3)) = 3"
    using len by (simp add: list_accounts_eq)
  then show "\<exists>entries.
           fst (list_accounts
                  (snd (create_accounts get_json d3
                     (snd (create_accounts get_json d2
                        (snd (create_accounts get_json d1 empty_store r1)) r2)) r3))) =
             Inr \<lparr>status_code = 200, body = Json (JArray entries), header_list = []\<rparr>
           \<and> length entries = 3"
    unfolding s1_def s2_def s3_def by (rule exI)
qed

theorem list_accounts_all_witness:
  "valid_create_request flask_get_json_415 (json_request (JObject [(''name'', JString ''Ann''), (''email'', JString ''a@b.c'')]))
   \<and> (\<exists>entries.
         fst (list_accounts
                (snd (create_accounts flask_get_json_415 ''2024-05-03''
                   (snd (create_accounts flask_get_json_415 ''2024-05-02''
                      (snd (create_accounts flask_get_json_415 ''2024-05-01'' empty_store
                         (json_request (JObject [(''name'', JString ''Ann''), (''email'', JString ''a@b.c'')]))))
                      (json_request (JObject [(''name'', JString ''Ann''), (''email'', JString ''a@b.c'')]))))
                   (json_request (JObject [(''name'', JString ''Ann''), (''email'', JString ''a@b.c'')]))))) =
           Inr \<lparr>status_code = 200, body = Json (JArray entries), header_list = []\<rparr>
         \<and> length entries = 3)
   \<and> list_accounts test_store =
        (Inr \<lparr>status_code = 200, body = Json (JArray [serialize test_account]), header_list = []\<rparr>,
         test_store)"
proof -
  let ?r = "json_request (JObject [(''name'', JString ''Ann''), (''email'', JString ''a@b.c'')])"
  have v: "valid_create_request flask_get_json_415 ?r"
    unfolding valid_create_request_def flask_get_json_415_json_request
    by (simp add: json_request_def)
  note inst = list_accounts_all[where ?r1.0 = ?r and ?r2.0 = ?r and ?r3.0 = ?r
      and ?d1.0 = "''2024-05-01''" and ?d2.0 = "''2024-05-02''" and ?d3.0 = "''2024-05-03''"
      and s = test_store]
  from inst v have three: "\<exists>entries.
         fst (list_accounts
                (snd (create_accounts flask_get_json_415 ''2024-05-03''
                   (snd (create_accounts flask_get_json_415 ''2024-05-02''
                      (snd (create_accounts flask_get_json_415 ''2024-05-01'' empty_store ?r)) ?r)) ?r))) =
           Inr \<lparr>status_code = 200, body = Json (JArray entries), header_list = []\<rparr>
         \<and> length entries = 3"
    by blast
  from inst obtain entries where l: "list_accounts test_store =
        (Inr \<lparr>status_code = 200, body = Json (JArray entries), header_list = []\<rparr>, test_store)"
    and n: "length entries = length (rows test_store)"
    and e: "\<forall>k < length (rows test_store). entries ! k = serialize (rows test_store ! k)"
    by blast
  have "length entries = 1" "entries ! 0 = serialize test_account"
    using n e by (simp_all add: test_store_def)
  then have "entries = [serialize test_account]"
    by (cases entries) simp_all
  with l have one: "list_accounts test_store =
        (Inr \<lparr>status_code = 200, body = Json (JArray [serialize test_account]), header_list = []\<rparr>,
         test_store)"
    by simp
  from v three one show ?thesis by (intro conjI)
qed

subsection \<open>Requests that fail leave the store alone\<close>

text \<open>
  Claim C8. Whenever the read, update or delete endpoint for one identity answers with
  status 404, the store is the one before the request: no account is created, modified or
  deleted. Each of the three does answer 404 when no account has the identity.
\<close>

theorem not_found_leaves_store:
  "(status_code (respond (fst (get_accounts s account_id))) = 404 \<longrightarrow>
      snd (get_accounts s account_id) = s)
   \<and> (status_code (respond (fst (update_accounts get_json today s account_id r))) = 404 \<longrightarrow>
      snd (update_accounts get_json today s account_id r) = s)
   \<and> (status_code (respond (fst (delete_account s account_id))) = 404 \<longrightarrow>
      snd (delete_account s account_id) = s)
   \<and> (find_account s account_id = None \<longrightarrow>
      status_code (respond (fst (get_accounts s account_id))) = 404
      \<and> status_code (respond (fst (update_accounts get_json today s account_id r))) = 404
      \<and> status_code (respond (fst (delete_account s account_id))) = 404)"
proof (intro conjI impI)
  show "snd (get_accounts s account_id) = s"
    by (simp add: get_accounts_def split: option.splits)
next
  assume "status_code (respond (fst (update_accounts get_json today s account_id r))) = 404"
  then show "snd (update_accounts get_json today s account_id r) = s"
    by (auto simp: update_accounts_def respond_def with_status_def jsonify_def status_defs
        split: option.splits sum.splits)
next
  assume "status_code (respond (fst (delete_account s account_id))) = 404"
  then show "snd (delete_account s account_id) = s"
    by (auto simp: delete_account_def respond_def with_status_def text_response_def status_defs
        split: option.splits)
next
  assume "find_account s account_id = None"
  then show "status_code (respond (fst (get_accounts s account_id))) = 404"
    "status_code (respond (fst (update_accounts get_json today s account_id r))) = 404"
    "status_code (respond (fst (delete_account s account_id))) = 404"
    by (simp_all add: get_accounts_absent update_accounts_absent delete_account_absent
        respond_def error_response_def)
qed

theorem not_found_leaves_store_witness:
  "find_account test_store 0 = None
   \<and> status_code (respond (fst (get_accounts test_store 0))) = 404
   \<and> snd (get_accounts test_store 0) = test_store
   \<and> status_code (respond (fst (update_accounts flask_get_json_415 ''2024-05-02'' test_store 0
        (json_request (JObject [(''name'', JString ''Updated Name'')]))))) = 404
   \<and> snd (update_accounts flask_get_json_415 ''2024-05-02'' test_store 0
        (json_request (JObject [(''name'', JString ''Updated Name'')]))) = test_store
   \<and> status_code (respond (fst (delete_account test_store 0))) = 404
   \<and> snd (delete_account test_store 0) = test_store"
proof -
  have f0: "find_account test_store 0 = None"
    by (simp add: find_account_def test_store_def test_account_def)
  from not_found_leaves_store[where s = test_store and account_id = 0 and today = "''2024-05-02''"
      and r = "json_request (JObject [(''name'', JString ''Updated Name'')])"] f0
  show ?thesis by blast
qed

subsection \<open>Update has no media-type check of its own\<close>








end
